theory Spec2Isabelle
  imports Complex_Main
begin

section \<open>Numbers\<close>

text \<open>
  Python floats are modelled by exact real numbers: every arithmetic operation of the
  source is the exact operation, and the special values (NaN, the infinities) and the
  binary rounding of each operation are outside the model. Python integers are \<open>int\<close>.

  \<^verbatim>\<open>round(x, n)\<close> rounds to \<open>n\<close> decimals, a tie going to the even neighbour.
\<close>

definition round_half_even :: "real \<Rightarrow> int" where
  "round_half_even x =
     (let n = \<lfloor>x\<rfloor>; f = x - of_int n
      in if f < 1 / 2 then n
         else if 1 / 2 < f then n + 1
         else if even n then n else n + 1)"

definition py_round :: "real \<Rightarrow> nat \<Rightarrow> real" where
  "py_round x ndigits = of_int (round_half_even (x * 10 ^ ndigits)) / 10 ^ ndigits"

text \<open>
  The builtins \<^verbatim>\<open>max(a, b)\<close> and \<^verbatim>\<open>min(a, b)\<close> keep the first argument unless the
  second is strictly greater (smaller).
\<close>

definition py_max2 :: "real \<Rightarrow> real \<Rightarrow> real" where
  "py_max2 a b = (if a < b then b else a)"

definition py_min2 :: "real \<Rightarrow> real \<Rightarrow> real" where
  "py_min2 a b = (if b < a then b else a)"

section \<open>Strings\<close>

text \<open>
  A Python \<^verbatim>\<open>str\<close> is a sequence of Unicode code points; a code point is a natural
  number. \<open>S\<close> turns an ASCII literal into such a sequence.
\<close>

type_synonym pychar = nat
type_synonym pystr = "nat list"

definition S :: "string \<Rightarrow> pystr" where
  "S cs = map of_char cs"

section \<open>Data model (app/models.py)\<close>

datatype ProductSource = AMAZON | EBAY | WALMART

record Review =
  review_text :: pystr
  review_rating :: real
  author :: "pystr option"
  date :: "pystr option"
  verified :: bool

record SentimentAnalysis =
  overall_sentiment :: pystr
  sentiment_score :: real
  pros :: "pystr list"
  cons :: "pystr list"
  summary :: pystr

record Product =
  product_id :: pystr
  title :: pystr
  price :: real
  original_price :: "real option"
  currency :: pystr
  image_url :: "pystr option"
  product_url :: pystr
  source :: ProductSource
  rating :: "real option"
  review_count :: "int option"
  availability :: pystr

record ProductWithAnalysis = Product +
  reviews :: "Review list"
  sentiment :: "SentimentAnalysis option"
  value_score :: real
  price_score :: real
  review_score :: real
  quality_score :: real

section \<open>Scoring service (app/services/scoring_service.py)\<close>

text \<open>The scoring weights of \<^verbatim>\<open>Settings\<close> (app/config.py).\<close>

definition PRICE_WEIGHT :: real where "PRICE_WEIGHT = 0.35"
definition REVIEW_WEIGHT :: real where "REVIEW_WEIGHT = 0.35"
definition QUALITY_WEIGHT :: real where "QUALITY_WEIGHT = 0.30"

definition calculate_price_score :: "real \<Rightarrow> real \<Rightarrow> real \<Rightarrow> real" where
  "calculate_price_score p min_price max_price =
     (if max_price = min_price then 7.5
      else let normalized = (max_price - p) / (max_price - min_price);
               score = normalized * 10
           in py_round (py_min2 10 (py_max2 0 score)) 2)"

definition volume_modifier :: "int option \<Rightarrow> real" where
  "volume_modifier rc =
     (case rc of
        None \<Rightarrow> 1.0
      | Some c \<Rightarrow>
          if c \<ge> 1000 then 1.15
          else if c \<ge> 500 then 1.10
          else if c \<ge> 100 then 1.05
          else if c \<ge> 10 then 1.0
          else 0.90)"

definition base_score :: "real option \<Rightarrow> real" where
  "base_score rt = (case rt of Some r \<Rightarrow> (r / 5) * 10 | None \<Rightarrow> 5.0)"

definition sentiment_adjustment :: "SentimentAnalysis option \<Rightarrow> real" where
  "sentiment_adjustment sent =
     (case sent of None \<Rightarrow> 0.0 | Some s \<Rightarrow> sentiment_score s * 0.5)"

definition calculate_review_score ::
  "real option \<Rightarrow> int option \<Rightarrow> SentimentAnalysis option \<Rightarrow> real" where
  "calculate_review_score rt rc sent =
     (let score = (base_score rt * volume_modifier rc) + sentiment_adjustment sent
      in py_round (py_min2 10 (py_max2 0 score)) 2)"

definition quality_keys :: "pystr list" where
  "quality_keys = [S ''durability'', S ''performance'', S ''build_quality'', S ''value_for_money'']"

definition sentiment_scores :: "SentimentAnalysis option \<Rightarrow> real list" where
  "sentiment_scores sent =
     (case sent of
        None \<Rightarrow> []
      | Some s \<Rightarrow>
          let pros_count = length (pros s); cons_count = length (cons s)
          in [(sentiment_score s + 1) * 5] @
             (if pros_count > 0 \<or> cons_count > 0
              then [real pros_count / real (pros_count + cons_count) * 10]
              else []))"

definition indicator_scores :: "(pystr \<rightharpoonup> real) \<Rightarrow> real list" where
  "indicator_scores q =
     concat (map (\<lambda>key. case q key of None \<Rightarrow> [] | Some v \<Rightarrow> [v * 10]) quality_keys)"

definition quality_indicator_scores :: "(pystr \<rightharpoonup> real) option \<Rightarrow> real list" where
  "quality_indicator_scores qi =
     (case qi of
        None \<Rightarrow> []
      | Some q \<Rightarrow>
          if q = Map.empty then []
          else let ind = indicator_scores q
               in if ind \<noteq> [] then [sum_list ind / real (length ind)] else [])"

definition calculate_quality_score ::
  "SentimentAnalysis option \<Rightarrow> (pystr \<rightharpoonup> real) option \<Rightarrow> real" where
  "calculate_quality_score sent qi =
     (let scores = sentiment_scores sent @ quality_indicator_scores qi
      in if scores \<noteq> []
         then py_round (py_min2 10 (py_max2 0 (sum_list scores / real (length scores)))) 2
         else 5.0)"

definition calculate_value_score :: "real \<Rightarrow> real \<Rightarrow> real \<Rightarrow> real" where
  "calculate_value_score ps rs qs =
     (let weighted_score = ps * PRICE_WEIGHT + rs * REVIEW_WEIGHT + qs * QUALITY_WEIGHT
      in py_round weighted_score 2)"

definition score_product ::
  "Product \<Rightarrow> real \<Rightarrow> real \<Rightarrow> Review list \<Rightarrow> SentimentAnalysis option \<Rightarrow>
   (pystr \<rightharpoonup> real) option \<Rightarrow> ProductWithAnalysis" where
  "score_product product min_price max_price revs sent qi =
     (let ps = calculate_price_score (price product) min_price max_price;
          rs = calculate_review_score (rating product) (review_count product) sent;
          qs = calculate_quality_score sent qi;
          vs = calculate_value_score ps rs qs
      in Product.extend product
           (ProductWithAnalysis.fields revs sent vs ps rs qs))"

text \<open>
  \<^verbatim>\<open>min(prices)\<close> and \<^verbatim>\<open>max(prices)\<close>: a left-to-right scan; on an empty list
  Python raises ValueError, here \<open>None\<close>.
\<close>

fun py_min_list :: "real list \<Rightarrow> real option" where
  "py_min_list [] = None"
| "py_min_list (x # xs) = Some (fold (\<lambda>y m. if y < m then y else m) xs x)"

fun py_max_list :: "real list \<Rightarrow> real option" where
  "py_max_list [] = None"
| "py_max_list (x # xs) = Some (fold (\<lambda>y m. if m < y then y else m) xs x)"

text \<open>
  \<^verbatim>\<open>list.sort(key=..., reverse=True)\<close> is a stable sort into descending key order:
  elements with equal keys keep their order.
\<close>

definition sort_desc :: "('a \<Rightarrow> real) \<Rightarrow> 'a list \<Rightarrow> 'a list" where
  "sort_desc k xs = sort_key (\<lambda>x. - k x) xs"

definition score_products ::
  "Product list \<Rightarrow> (pystr \<rightharpoonup> Review list) \<Rightarrow> (pystr \<rightharpoonup> SentimentAnalysis) \<Rightarrow>
   (pystr \<rightharpoonup> (pystr \<rightharpoonup> real)) option \<Rightarrow> ProductWithAnalysis list" where
  "score_products products reviews_map sentiments_map quality_map =
     (if products = [] then []
      else
        let prices = map price products
        in case (py_min_list prices, py_max_list prices) of
             (Some min_price, Some max_price) \<Rightarrow>
               let scored_products =
                     map (\<lambda>product.
                           let revs = (case reviews_map (product_id product) of
                                         None \<Rightarrow> [] | Some r \<Rightarrow> r);
                               sent = sentiments_map (product_id product);
                               quality = (case quality_map of
                                            None \<Rightarrow> None
                                          | Some qm \<Rightarrow>
                                              if qm = Map.empty then None
                                              else qm (product_id product))
                           in score_product product min_price max_price revs sent quality)
                         products
               in sort_desc value_score scored_products
           | _ \<Rightarrow> [])"

text \<open>
  The last case is never taken: \<open>prices\<close> is not empty there, so both scans return a
  value.
\<close>

text \<open>
  \<^verbatim>\<open>max(products, key=...)\<close> scans from the left and replaces the current best only by
  an element with a strictly greater key.
\<close>

fun py_max_key :: "('a \<Rightarrow> real) \<Rightarrow> 'a list \<Rightarrow> 'a option" where
  "py_max_key k [] = None"
| "py_max_key k (x # xs) = Some (fold (\<lambda>y best. if k best < k y then y else best) xs x)"

record 'a Bests =
  best_value :: "'a option"
  best_price :: "'a option"
  best_quality :: "'a option"

definition get_best_products :: "ProductWithAnalysis list \<Rightarrow> ProductWithAnalysis Bests" where
  "get_best_products products =
     (if products = []
      then \<lparr>best_value = None, best_price = None, best_quality = None\<rparr>
      else \<lparr>best_value = py_max_key value_score products,
            best_price = py_max_key price_score products,
            best_quality = py_max_key quality_score products\<rparr>)"

section \<open>Character classes and string builtins\<close>

text \<open>
  Whitespace is what \<^verbatim>\<open>str.strip\<close>, \<^verbatim>\<open>str.split\<close> and the pattern \<^verbatim>\<open>\s\<close> of \<^verbatim>\<open>re\<close>
  (on \<^verbatim>\<open>str\<close> patterns) take it to be: the code points for which \<^verbatim>\<open>str.isspace\<close>
  holds.
\<close>

definition is_space :: "pychar \<Rightarrow> bool" where
  "is_space c \<longleftrightarrow>
     (9 \<le> c \<and> c \<le> 13) \<or> (28 \<le> c \<and> c \<le> 32) \<or> c = 133 \<or> c = 160 \<or> c = 5760 \<or>
     (8192 \<le> c \<and> c \<le> 8202) \<or> c = 8232 \<or> c = 8233 \<or> c = 8239 \<or> c = 8287 \<or> c = 12288"

text \<open>
  The pattern \<^verbatim>\<open>\d\<close> matches every Unicode decimal digit (category Nd), and
  \<^verbatim>\<open>float\<close> reads every such digit with its decimal value. The digits come in runs of
  ten, \<open>0\<close> to \<open>9\<close>; \<open>nd_zeros\<close> lists the code point of the zero of each run
  (Unicode 14).
\<close>

definition nd_zeros :: "nat list" where
  "nd_zeros =
     [48, 1632, 1776, 1984, 2406, 2534, 2662, 2790, 2918, 3046, 3174, 3302, 3430, 3558,
      3664, 3792, 3872, 4160, 4240, 6112, 6160, 6470, 6608, 6784, 6800, 6992, 7088, 7232,
      7248, 42528, 43216, 43264, 43472, 43504, 43600, 44016, 65296, 66720, 68912, 69734,
      69872, 69942, 70096, 70384, 70736, 70864, 71248, 71360, 71472, 71904, 72016, 72784,
      73040, 73120, 92768, 92864, 93008, 120782, 120792, 120802, 120812, 120822, 123200,
      123632, 125264, 130032]"

definition digit_value :: "pychar \<Rightarrow> nat option" where
  "digit_value c =
     (case find (\<lambda>z. z \<le> c \<and> c < z + 10) nd_zeros of
        None \<Rightarrow> None
      | Some z \<Rightarrow> Some (c - z))"

definition is_digit :: "pychar \<Rightarrow> bool" where
  "is_digit c \<longleftrightarrow> digit_value c \<noteq> None"

text \<open>
  Under \<^verbatim>\<open>re.IGNORECASE\<close> an ASCII letter of a pattern matches its lower-case and
  upper-case form, and besides \<open>i\<close> matches U+0130 and U+0131, \<open>s\<close> matches U+017F and
  \<open>k\<close> matches U+212A. Any other pattern character matches itself only.
\<close>

definition lower_ascii :: "pychar \<Rightarrow> pychar" where
  "lower_ascii c = (if 65 \<le> c \<and> c \<le> 90 then c + 32 else c)"

definition ci_char :: "pychar \<Rightarrow> pychar \<Rightarrow> bool" where
  "ci_char p c \<longleftrightarrow>
     (let q = lower_ascii p
      in c = q \<or> (97 \<le> q \<and> q \<le> 122 \<and> c + 32 = q) \<or>
         (q = 105 \<and> (c = 304 \<or> c = 305)) \<or> (q = 115 \<and> c = 383) \<or> (q = 107 \<and> c = 8490))"

fun ci_prefix :: "pystr \<Rightarrow> pystr \<Rightarrow> bool" where
  "ci_prefix [] s = True"
| "ci_prefix (p # ps) [] = False"
| "ci_prefix (p # ps) (c # cs) = (ci_char p c \<and> ci_prefix ps cs)"

definition ci_suffix :: "pystr \<Rightarrow> pystr \<Rightarrow> bool" where
  "ci_suffix pat s = ci_prefix (rev pat) (rev s)"

text \<open>\<^verbatim>\<open>str.strip()\<close>, and its right half.\<close>

definition rstrip :: "pystr \<Rightarrow> pystr" where
  "rstrip s = rev (dropWhile is_space (rev s))"

definition strip :: "pystr \<Rightarrow> pystr" where
  "strip s = rstrip (dropWhile is_space s)"

text \<open>\<^verbatim>\<open>str.split()\<close>: the maximal runs of non-whitespace, in order.\<close>

function py_split :: "pystr \<Rightarrow> pystr list" where
  "py_split [] = []"
| "py_split (c # cs) =
     (if is_space c then py_split cs
      else (c # takeWhile (\<lambda>d. \<not> is_space d) cs) # py_split (dropWhile (\<lambda>d. \<not> is_space d) cs))"
  by pat_completeness auto
termination
  by (relation "measure length") (auto simp: length_dropWhile_le less_Suc_eq_le)

text \<open>\<^verbatim>\<open>' '.join(words)\<close>.\<close>

fun py_join :: "pystr list \<Rightarrow> pystr" where
  "py_join [] = []"
| "py_join [w] = w"
| "py_join (w # v # ws) = w @ [32] @ py_join (v # ws)"

text \<open>\<^verbatim>\<open>sub in s\<close>, by way of \<^verbatim>\<open>s.startswith(sub)\<close> at each position.\<close>

fun starts_with :: "pystr \<Rightarrow> pystr \<Rightarrow> bool" where
  "starts_with [] s = True"
| "starts_with (p # ps) [] = False"
| "starts_with (p # ps) (c # cs) = (p = c \<and> starts_with ps cs)"

fun py_contains :: "pystr \<Rightarrow> pystr \<Rightarrow> bool" where
  "py_contains sub [] = (sub = [])"
| "py_contains sub (c # cs) = (starts_with sub (c # cs) \<or> py_contains sub cs)"

text \<open>
  \<^verbatim>\<open>s.replace(old, "")\<close> for a non-empty \<open>old\<close>: the occurrences of \<open>old\<close> are removed
  from left to right, without overlap. With an empty \<open>old\<close> the string is unchanged.
\<close>

function py_remove :: "pystr \<Rightarrow> pystr \<Rightarrow> pystr" where
  "py_remove old [] = []"
| "py_remove old (c # cs) =
     (if old = [] then c # cs
      else if starts_with old (c # cs) then py_remove old (drop (length old) (c # cs))
      else c # py_remove old cs)"
  by pat_completeness auto
termination
  by (relation "measure (\<lambda>(old, s). length s)") (auto simp: neq_Nil_conv)

text \<open>
  \<^verbatim>\<open>str.upper()\<close> on the text that the pattern of ISO codes can match: ASCII letters
  and the four code points above, of which U+0131 becomes \<open>I\<close>, U+017F becomes \<open>S\<close>,
  and U+0130 and U+212A stay.
\<close>

definition upper_char :: "pychar \<Rightarrow> pychar" where
  "upper_char c =
     (if 97 \<le> c \<and> c \<le> 122 then c - 32
      else if c = 305 then 73
      else if c = 383 then 83
      else c)"

text \<open>
  \<^verbatim>\<open>float(s)\<close> for a string \<open>s\<close> of decimal digits, \<open>.\<close> and \<open>-\<close> that does not start
  with \<open>-\<close> (only such strings reach it here): it raises ValueError, here \<open>None\<close>,
  unless \<open>s\<close> is a run of digits, optionally with one \<open>.\<close> in it or at one end, and
  has a digit; then it is the decimal number written.
\<close>

definition digits_value :: "pystr \<Rightarrow> nat" where
  "digits_value ds =
     foldl (\<lambda>a c. 10 * a + (case digit_value c of None \<Rightarrow> 0 | Some d \<Rightarrow> d)) 0 ds"

definition py_float :: "pystr \<Rightarrow> real option" where
  "py_float s =
     (let ip = takeWhile is_digit s; rest = dropWhile is_digit s
      in case rest of
           [] \<Rightarrow> if ip = [] then None else Some (real (digits_value ip))
         | c # fp \<Rightarrow>
             if c = 46 \<and> list_all is_digit fp \<and> (ip \<noteq> [] \<or> fp \<noteq> [])
             then Some (real (digits_value ip) + real (digits_value fp) / 10 ^ length fp)
             else None)"

section \<open>Price normalizer (app/utils/price_normalizer.py)\<close>

definition CURRENCY_SYMBOLS :: "(pystr \<times> pystr) list" where
  "CURRENCY_SYMBOLS =
     [(S ''$'', S ''USD''),
      ([8364], S ''EUR''),
      ([163], S ''GBP''),
      ([165], S ''JPY''),
      ([8377], S ''INR''),
      (S ''C$'', S ''CAD''),
      (S ''A$'', S ''AUD''),
      ([8381], S ''RUB''),
      (S ''R$'', S ''BRL''),
      ([8361], S ''KRW'')]"

text \<open>
  The keys are, in the order of the dictionary: \<open>$\<close>, the euro sign U+20AC, the pound
  sign U+00A3, the yen sign U+00A5, the rupee sign U+20B9, \<open>C$\<close>, \<open>A$\<close>, the ruble sign
  U+20BD, \<open>R$\<close> and the won sign U+20A9. Iterating over a dictionary follows the order
  of insertion.
\<close>

definition EXCHANGE_RATES_TO_USD :: "(pystr \<times> real) list" where
  "EXCHANGE_RATES_TO_USD =
     [(S ''USD'', 1.0),
      (S ''EUR'', 1.08),
      (S ''GBP'', 1.27),
      (S ''JPY'', 0.0067),
      (S ''INR'', 0.012),
      (S ''CAD'', 0.74),
      (S ''AUD'', 0.65),
      (S ''RUB'', 0.011),
      (S ''BRL'', 0.20),
      (S ''KRW'', 0.00075)]"

definition rate_to_usd :: "pystr \<Rightarrow> real" where
  "rate_to_usd code = (case map_of EXCHANGE_RATES_TO_USD code of None \<Rightarrow> 1.0 | Some r \<Rightarrow> r)"

text \<open>
  \<^verbatim>\<open>re.sub(r'^(from|starting at|price:|now)\s*', '', s, flags=re.IGNORECASE)\<close>: the
  pattern is anchored at the start, so at most one match is removed: the first
  alternative that the string starts with, and the whitespace after it.
\<close>

definition leading_words :: "pystr list" where
  "leading_words = [S ''from'', S ''starting at'', S ''price:'', S ''now'']"

definition sub_leading :: "pystr \<Rightarrow> pystr" where
  "sub_leading s =
     (case find (\<lambda>w. ci_prefix w s) leading_words of
        None \<Rightarrow> s
      | Some w \<Rightarrow> dropWhile is_space (drop (length w) s))"

text \<open>
  \<^verbatim>\<open>re.sub(r'\s*(per unit|each|/ea)$', '', s, flags=re.IGNORECASE)\<close>: \<^verbatim>\<open>$\<close> matches
  at the end of the string and just before a newline that ends the string. The
  leftmost match starts where the whitespace before the word starts.
\<close>

definition trailing_words :: "pystr list" where
  "trailing_words = [S ''per unit'', S ''each'', S ''/ea'']"

definition sub_trailing :: "pystr \<Rightarrow> pystr" where
  "sub_trailing s =
     (case find (\<lambda>w. ci_suffix w s) trailing_words of
        Some w \<Rightarrow> rstrip (take (length s - length w) s)
      | None \<Rightarrow>
          if s \<noteq> [] \<and> last s = 10
          then (case find (\<lambda>w. ci_suffix w (butlast s)) trailing_words of
                  Some w \<Rightarrow> rstrip (take (length s - 1 - length w) s) @ [10]
                | None \<Rightarrow> s)
          else s)"

definition clean_price_string :: "pystr \<Rightarrow> pystr" where
  "clean_price_string price_str =
     (if price_str = [] then []
      else let cleaned = strip price_str;
               cleaned = sub_leading cleaned;
               cleaned = sub_trailing cleaned
           in py_join (py_split cleaned))"

definition ISO_CODES :: "pystr list" where
  "ISO_CODES =
     [S ''USD'', S ''EUR'', S ''GBP'', S ''JPY'', S ''INR'', S ''CAD'', S ''AUD'', S ''RUB'',
      S ''BRL'', S ''KRW'']"

definition detect_currency :: "pystr \<Rightarrow> pystr \<times> pystr" where
  "detect_currency price_str =
     (let cleaned = clean_price_string price_str
      in case find (\<lambda>(symbol, code). py_contains symbol cleaned) CURRENCY_SYMBOLS of
           Some (symbol, code) \<Rightarrow> (code, strip (py_remove symbol cleaned))
         | None \<Rightarrow>
             (case find (\<lambda>w. ci_prefix w cleaned) ISO_CODES of
                Some w \<Rightarrow>
                  let group1 = take (length w) cleaned;
                      group0 = group1 @ takeWhile is_space (drop (length w) cleaned)
                  in (map upper_char group1, strip (drop (length group0) cleaned))
              | None \<Rightarrow> (S ''USD'', cleaned)))"

text \<open>\<^verbatim>\<open>s.rfind(c)\<close>: the index of the last \<open>c\<close> in \<open>s\<close>, or \<open>-1\<close>.\<close>

definition rfind :: "pychar \<Rightarrow> pystr \<Rightarrow> int" where
  "rfind c s =
     (if c \<in> set s then int (length s) - 1 - int (length (takeWhile (\<lambda>d. d \<noteq> c) (rev s)))
      else - 1)"

text \<open>
  \<open>parse_numeric_value\<close> decides, from the number of commas and dots, which of them
  are thousands separators and which is the decimal point, and rewrites the text
  accordingly. Each of its branches ends in the same step: \<^verbatim>\<open>float(cleaned)\<close>,
  negated when the text started with \<open>-\<close>, and \<open>None\<close> on ValueError. \<open>decimal_form\<close> is
  the text that reaches \<^verbatim>\<open>float\<close>, branch by branch.
\<close>

definition decimal_form :: "pystr \<Rightarrow> pystr" where
  "decimal_form cleaned =
     (let comma_count = count_list cleaned 44;
          dot_count = count_list cleaned 46
      in if comma_count = 0 \<and> dot_count = 0 then cleaned
         else if comma_count = 0 \<and> dot_count = 1 then cleaned
         else if comma_count = 1 \<and> dot_count = 0 then
           (let parts1 = drop 1 (dropWhile (\<lambda>c. c \<noteq> 44) cleaned)
            in if length parts1 = 2
               then map (\<lambda>c. if c = 44 then 46 else c) cleaned
               else filter (\<lambda>c. c \<noteq> 44) cleaned)
         else if dot_count \<ge> 1 \<and> comma_count \<ge> 1 then
           (let last_dot = rfind 46 cleaned;
                last_comma = rfind 44 cleaned
            in if last_dot > last_comma
               then filter (\<lambda>c. c \<noteq> 44) cleaned
               else map (\<lambda>c. if c = 44 then 46 else c) (filter (\<lambda>c. c \<noteq> 46) cleaned))
         else
           (let cleaned = (if comma_count > 1 then filter (\<lambda>c. c \<noteq> 44) cleaned else cleaned);
                cleaned = (if dot_count > 1 then filter (\<lambda>c. c \<noteq> 46) cleaned else cleaned)
            in cleaned))"

definition parse_numeric_value :: "pystr \<Rightarrow> real option" where
  "parse_numeric_value value_str =
     (if value_str = [] then None
      else
        let cleaned = filter (\<lambda>c. is_digit c \<or> c = 46 \<or> c = 44 \<or> c = 45) value_str
        in if cleaned = [] then None
           else
             let is_negative = (hd cleaned = 45);
                 cleaned = dropWhile (\<lambda>c. c = 45) cleaned
             in case py_float (decimal_form cleaned) of
                  None \<Rightarrow> None
                | Some result \<Rightarrow> Some (if is_negative then - result else result))"

definition normalize_price :: "pystr \<Rightarrow> pystr \<Rightarrow> real option \<times> pystr" where
  "normalize_price price_str target_currency =
     (if price_str = [] then (None, S ''USD'')
      else
        let (source_currency, cleaned) = detect_currency price_str
        in case parse_numeric_value cleaned of
             None \<Rightarrow> (None, source_currency)
           | Some v \<Rightarrow>
               let v = (if source_currency \<noteq> target_currency
                        then let source_rate = rate_to_usd source_currency;
                                 target_rate = rate_to_usd target_currency;
                                 usd_value = v * source_rate
                             in usd_value / target_rate
                        else v)
               in (Some (py_round v 2), source_currency))"

section \<open>Mock data service (app/services/mock_service.py)\<close>

text \<open>
  The templates of \<^verbatim>\<open>MOCK_PRODUCTS\<close>. Every template has all seven keys, one of them
  with \<^verbatim>\<open>original_price\<close> \<^verbatim>\<open>None\<close>.
\<close>

record MockItem =
  item_title :: pystr
  item_price :: real
  item_original_price :: "real option"
  item_rating :: real
  item_review_count :: int
  item_source :: ProductSource
  item_image_url :: pystr

definition MOCK_wireless_headphones :: "MockItem list" where
  "MOCK_wireless_headphones =
     [\<lparr>item_title = S ''Sony WH-1000XM5 Wireless Noise Cancelling Headphones'',
       item_price = 348.00, item_original_price = (Some 399.99), item_rating = 4.7,
       item_review_count = 12543, item_source = AMAZON,
       item_image_url = S ''https://m.media-amazon.com/images/I/61vJtKbassL._AC_SL1500_.jpg''\<rparr>,
      \<lparr>item_title = S ''Apple AirPods Max - Space Gray'',
       item_price = 449.00, item_original_price = (Some 549.00), item_rating = 4.6,
       item_review_count = 8234, item_source = AMAZON,
       item_image_url = S ''https://m.media-amazon.com/images/I/81jNKu5U3lL._AC_SL1500_.jpg''\<rparr>,
      \<lparr>item_title = S ''Bose QuietComfort Ultra Headphones'',
       item_price = 379.00, item_original_price = (Some 429.00), item_rating = 4.5,
       item_review_count = 5621, item_source = EBAY,
       item_image_url = S ''https://m.media-amazon.com/images/I/51QnOIvVm8L._AC_SL1500_.jpg''\<rparr>,
      \<lparr>item_title = S ''Sennheiser Momentum 4 Wireless Headphones'',
       item_price = 299.95, item_original_price = (Some 379.95), item_rating = 4.4,
       item_review_count = 3456, item_source = WALMART,
       item_image_url = S ''https://m.media-amazon.com/images/I/61SUj2aKoEL._AC_SL1500_.jpg''\<rparr>,
      \<lparr>item_title = S ''JBL Tune 760NC Wireless Headphones'',
       item_price = 79.95, item_original_price = (Some 129.95), item_rating = 4.3,
       item_review_count = 7892, item_source = WALMART,
       item_image_url = S ''https://m.media-amazon.com/images/I/61SUj2aKoEL._AC_SL1500_.jpg''\<rparr>]"

definition MOCK_laptop_stand :: "MockItem list" where
  "MOCK_laptop_stand =
     [\<lparr>item_title = S ''Rain Design mStand Laptop Stand - Space Gray'',
       item_price = 49.90, item_original_price = (Some 59.90), item_rating = 4.7,
       item_review_count = 15234, item_source = AMAZON,
       item_image_url = S ''https://m.media-amazon.com/images/I/71-oNMl84VL._AC_SL1500_.jpg''\<rparr>,
      \<lparr>item_title = S ''Twelve South Curve SE Aluminum Laptop Stand'',
       item_price = 59.99, item_original_price = (Some 79.99), item_rating = 4.6,
       item_review_count = 4521, item_source = AMAZON,
       item_image_url = S ''https://m.media-amazon.com/images/I/71-oNMl84VL._AC_SL1500_.jpg''\<rparr>,
      \<lparr>item_title = S ''UGREEN Laptop Stand Adjustable Height'',
       item_price = 29.99, item_original_price = (Some 39.99), item_rating = 4.5,
       item_review_count = 8765, item_source = EBAY,
       item_image_url = S ''https://m.media-amazon.com/images/I/71-oNMl84VL._AC_SL1500_.jpg''\<rparr>,
      \<lparr>item_title = S ''Amazon Basics Laptop Stand - Black'',
       item_price = 19.99, item_original_price = (Some 24.99), item_rating = 4.3,
       item_review_count = 23456, item_source = WALMART,
       item_image_url = S ''https://m.media-amazon.com/images/I/71-oNMl84VL._AC_SL1500_.jpg''\<rparr>]"

definition MOCK_default :: "MockItem list" where
  "MOCK_default =
     [\<lparr>item_title = S ''Premium Product A - Top Rated'',
       item_price = 149.99, item_original_price = (Some 199.99), item_rating = 4.8,
       item_review_count = 5432, item_source = AMAZON,
       item_image_url = S ''https://via.placeholder.com/300x300?text=Product+A''\<rparr>,
      \<lparr>item_title = S ''Best Value Product B'',
       item_price = 79.99, item_original_price = (Some 99.99), item_rating = 4.5,
       item_review_count = 8765, item_source = EBAY,
       item_image_url = S ''https://via.placeholder.com/300x300?text=Product+B''\<rparr>,
      \<lparr>item_title = S ''Budget-Friendly Product C'',
       item_price = 39.99, item_original_price = (Some 49.99), item_rating = 4.2,
       item_review_count = 12345, item_source = WALMART,
       item_image_url = S ''https://via.placeholder.com/300x300?text=Product+C''\<rparr>,
      \<lparr>item_title = S ''Professional Product D'',
       item_price = 249.99, item_original_price = (Some 299.99), item_rating = 4.6,
       item_review_count = 3456, item_source = AMAZON,
       item_image_url = S ''https://via.placeholder.com/300x300?text=Product+D''\<rparr>,
      \<lparr>item_title = S ''Affordable Product E'',
       item_price = 24.99, item_original_price = None, item_rating = 4.0,
       item_review_count = 6789, item_source = EBAY,
       item_image_url = S ''https://via.placeholder.com/300x300?text=Product+E''\<rparr>]"

definition MOCK_PRODUCTS :: "(pystr \<times> MockItem list) list" where
  "MOCK_PRODUCTS =
     [(S ''wireless headphones'', MOCK_wireless_headphones),
      (S ''laptop stand'', MOCK_laptop_stand),
      (S ''default'', MOCK_default)]"

text \<open>
  Three builtins are parameters of the model, since their full definitions lie
  outside the repository: \<^verbatim>\<open>str.lower\<close> and \<^verbatim>\<open>str.title\<close> (the Unicode case mappings)
  and \<^verbatim>\<open>hash\<close> on strings (salted once per process, then a fixed function).
\<close>

record Builtins =
  str_lower :: "pystr \<Rightarrow> pystr"
  str_title :: "pystr \<Rightarrow> pystr"
  str_hash :: "pystr \<Rightarrow> int"

text \<open>
  The state of the module \<^verbatim>\<open>random\<close> is the sequence of the values that the coming
  calls of \<^verbatim>\<open>random.random()\<close> return, each in \<open>[0, 1)\<close>. \<^verbatim>\<open>random.uniform(a, b)\<close> is
  \<^verbatim>\<open>a + (b - a) * random()\<close>; it takes the first value and leaves the rest.
\<close>

type_synonym rng = "nat \<Rightarrow> real"

definition random_uniform :: "real \<Rightarrow> real \<Rightarrow> rng \<Rightarrow> real \<times> rng" where
  "random_uniform a b g = (a + (b - a) * g 0, \<lambda>n. g (Suc n))"

text \<open>\<^verbatim>\<open>str(n)\<close> for a natural number: its decimal digits.\<close>

function str_nat :: "nat \<Rightarrow> pystr" where
  "str_nat n = (if n < 10 then [48 + n] else str_nat (n div 10) @ [48 + n mod 10])"
  by pat_completeness auto
termination
  by (relation "measure id") auto

definition source_value :: "ProductSource \<Rightarrow> pystr" where
  "source_value s = (case s of AMAZON \<Rightarrow> S ''amazon'' | EBAY \<Rightarrow> S ''ebay'' | WALMART \<Rightarrow> S ''walmart'')"

definition select_mock_data :: "pystr \<Rightarrow> MockItem list" where
  "select_mock_data query_lower =
     (case find (\<lambda>(key, items). py_contains key query_lower) MOCK_PRODUCTS of
        Some (key, items) \<Rightarrow> items
      | None \<Rightarrow> (case map_of MOCK_PRODUCTS (S ''default'') of None \<Rightarrow> [] | Some items \<Rightarrow> items))"

definition mock_product ::
  "Builtins \<Rightarrow> pystr \<Rightarrow> nat \<Rightarrow> MockItem \<Rightarrow> real \<Rightarrow> Product" where
  "mock_product env query i item variation =
     (let query_lower = str_lower env query;
          title = (if \<not> py_contains query_lower (str_lower env (item_title item))
                   then item_title item @ S '' - '' @ str_title env query
                   else item_title item)
      in \<lparr>product_id = S ''mock_'' @ source_value (item_source item) @ S ''_'' @ str_nat i @ S ''_''
             @ str_nat (nat (str_hash env query mod 10000)),
          title = title,
          price = item_price item + variation,
          original_price = item_original_price item,
          currency = S ''USD'',
          image_url = Some (item_image_url item),
          product_url = S ''https://example.com/product/'' @ str_nat i,
          source = item_source item,
          rating = Some (item_rating item),
          review_count = Some (item_review_count item),
          availability = S ''in_stock''\<rparr>)"

text \<open>
  The loop over \<^verbatim>\<open>enumerate(mock_data)\<close>: \<open>products\<close> is the list built so far and \<open>g\<close>
  the state of the random generator.
\<close>

fun mock_loop ::
  "Builtins \<Rightarrow> pystr \<Rightarrow> ProductSource list \<Rightarrow> int \<Rightarrow> (nat \<times> MockItem) list \<Rightarrow>
   Product list \<Rightarrow> rng \<Rightarrow> Product list \<times> rng" where
  "mock_loop env query sources limit [] products g = (products, g)"
| "mock_loop env query sources limit ((i, item) # rest) products g =
     (if item_source item \<in> set sources \<and> int (length products) < limit
      then let (variation, g') = random_uniform (- 5) 5 g;
               product = mock_product env query i item variation
           in mock_loop env query sources limit rest (products @ [product]) g'
      else mock_loop env query sources limit rest products g)"

definition get_mock_products ::
  "Builtins \<Rightarrow> pystr \<Rightarrow> ProductSource list \<Rightarrow> int \<Rightarrow> rng \<Rightarrow> Product list \<times> rng" where
  "get_mock_products env query sources limit g =
     (let query_lower = str_lower env query;
          mock_data = select_mock_data query_lower
      in mock_loop env query sources limit (enumerate 0 mock_data) [] g)"

text \<open>
  \<^verbatim>\<open>str.lower\<close> and \<^verbatim>\<open>str.title\<close> on ASCII text, and a constant in place of \<^verbatim>\<open>hash\<close>:
  the builtins of the examples.
\<close>

definition ascii_lower :: "pystr \<Rightarrow> pystr" where
  "ascii_lower s = map lower_ascii s"

fun ascii_title_from :: "bool \<Rightarrow> pystr \<Rightarrow> pystr" where
  "ascii_title_from previous_is_cased [] = []"
| "ascii_title_from previous_is_cased (c # cs) =
     (if 97 \<le> c \<and> c \<le> 122 then
        (if previous_is_cased then c else c - 32) # ascii_title_from True cs
      else if 65 \<le> c \<and> c \<le> 90 then
        (if previous_is_cased then c + 32 else c) # ascii_title_from True cs
      else c # ascii_title_from False cs)"

definition example_builtins :: Builtins where
  "example_builtins =
     \<lparr>str_lower = ascii_lower, str_title = ascii_title_from False, str_hash = (\<lambda>s. 4242)\<rparr>"

text \<open>A generator whose draws are \<open>1/2\<close>, \<open>1/3\<close>, \<open>1/4\<close> and so on.\<close>

definition example_rng :: rng where
  "example_rng n = 1 / real (n + 2)"

section \<open>Notions used in the statements\<close>

text \<open>
  \<open>b\<close> is the first element of \<open>xs\<close> with the greatest key: it stands at an index
  before which every key is strictly smaller, and no key of \<open>xs\<close> is greater.
\<close>

definition is_first_max :: "('a \<Rightarrow> real) \<Rightarrow> 'a list \<Rightarrow> 'a \<Rightarrow> bool" where
  "is_first_max k xs b \<longleftrightarrow>
     (\<exists>i<length xs. xs ! i = b \<and> (\<forall>j<i. k (xs ! j) < k b) \<and>
        (\<forall>j<length xs. k (xs ! j) \<le> k b))"

text \<open>The characters of a numeric amount: the ASCII digits, the dot and the comma.\<close>

definition amount_char :: "pychar \<Rightarrow> bool" where
  "amount_char c \<longleftrightarrow> (48 \<le> c \<and> c \<le> 57) \<or> c = 46 \<or> c = 44"

text \<open>Two products and a sentiment result, as inputs of the examples.\<close>

definition example_product :: "pystr \<Rightarrow> real \<Rightarrow> real option \<Rightarrow> int option \<Rightarrow> Product" where
  "example_product pid p rt rc =
     \<lparr>product_id = pid, title = S ''Wireless Earbuds'', price = p, original_price = None,
      currency = S ''USD'', image_url = None, product_url = S ''https://example.com/p'',
      source = AMAZON, rating = rt, review_count = rc, availability = S ''in_stock''\<rparr>"


definition example_products :: "Product list" where
  "example_products =
     [example_product (S ''prod_001'') 29.99 (Some 4.5) (Some 2500),
      example_product (S ''prod_002'') 349.99 (Some 4.8) (Some 8500)]"

section \<open>Rounding\<close>

lemma round_half_even_of_int: "round_half_even (of_int n) = n"
  by (simp add: round_half_even_def)

lemma round_half_even_mono:
  assumes "x \<le> y" shows "round_half_even x \<le> round_half_even y"
proof (cases "\<lfloor>x\<rfloor> = \<lfloor>y\<rfloor>")
  case True
  then show ?thesis using assms
    by (auto simp: round_half_even_def Let_def)
next
  case False
  with assms have "\<lfloor>x\<rfloor> < \<lfloor>y\<rfloor>"
    using floor_mono [of x y] by linarith
  moreover have "round_half_even x \<le> \<lfloor>x\<rfloor> + 1"
    by (simp add: round_half_even_def Let_def)
  moreover have "\<lfloor>y\<rfloor> \<le> round_half_even y"
    by (simp add: round_half_even_def Let_def)
  ultimately show ?thesis by linarith
qed

lemma py_round_mono: "x \<le> y \<Longrightarrow> py_round x n \<le> py_round y n"
  unfolding py_round_def
  by (intro divide_right_mono) (auto intro!: round_half_even_mono mult_right_mono)

lemma py_round_int2: "py_round (of_int k) 2 = of_int k"
proof -
  have "of_int k * (10::real) ^ 2 = of_int (k * 100)" by simp
  then have "round_half_even (of_int k * 10 ^ 2) = k * 100"
    using round_half_even_of_int [of "k * 100"] by presburger
  then show ?thesis by (simp add: py_round_def)
qed

lemma py_round_0: "py_round 0 2 = 0" using py_round_int2 [of 0] by simp
lemma py_round_10: "py_round 10 2 = 10" using py_round_int2 [of 10] by simp




section \<open>Price score\<close>



section \<open>Value score\<close>

lemma value_score_mono:
  assumes "ps \<le> ps'" "rs \<le> rs'" "qs \<le> qs'"
  shows "calculate_value_score ps rs qs \<le> calculate_value_score ps' rs' qs'"
  unfolding calculate_value_score_def Let_def PRICE_WEIGHT_def REVIEW_WEIGHT_def QUALITY_WEIGHT_def
  using assms by (intro py_round_mono) simp

lemma value_score_0: "calculate_value_score 0 0 0 = 0"
  by (simp add: calculate_value_score_def py_round_0)

lemma value_score_10: "calculate_value_score 10 10 10 = 10"
  by (simp add: calculate_value_score_def PRICE_WEIGHT_def REVIEW_WEIGHT_def QUALITY_WEIGHT_def py_round_10)

text \<open>
  Claim C4. \<open>calculate_value_score\<close> is non-decreasing in each of its three inputs, the
  other two held fixed, and its values at \<open>(10, 10, 10)\<close>, \<open>(0, 0, 0)\<close> and \<open>(5, 5, 5)\<close>
  are 10.0, 0.0 and 5.0.
\<close>

theorem value_score_monotone:
  "(ps \<le> ps' \<longrightarrow> calculate_value_score ps rs qs \<le> calculate_value_score ps' rs qs) \<and>
   (rs \<le> rs' \<longrightarrow> calculate_value_score ps rs qs \<le> calculate_value_score ps rs' qs) \<and>
   (qs \<le> qs' \<longrightarrow> calculate_value_score ps rs qs \<le> calculate_value_score ps rs qs') \<and>
   calculate_value_score 10 10 10 = 10.0 \<and>
   calculate_value_score 0 0 0 = 0.0 \<and>
   calculate_value_score 5 5 5 = 5.0"
proof -
  have "calculate_value_score 10 10 10 = 10.0"
    by (simp add: value_score_10)
  moreover have "calculate_value_score 0 0 0 = 0.0"
    by (simp add: value_score_0)
  moreover have "calculate_value_score 5 5 5 = 5.0"
    using py_round_int2 [of 5]
    by (simp add: calculate_value_score_def PRICE_WEIGHT_def REVIEW_WEIGHT_def QUALITY_WEIGHT_def)
  ultimately show ?thesis
    by (simp add: value_score_mono)
qed

theorem value_score_monotone_witness:
  "calculate_value_score 2 6 7 \<le> calculate_value_score 3 6 7 \<and>
   calculate_value_score 2 6 7 \<le> calculate_value_score 2 8 7 \<and>
   calculate_value_score 2 6 7 \<le> calculate_value_score 2 6 9.5"
  using value_score_monotone [where ps = 2 and ps' = 3 and rs = 6 and rs' = 8 and qs = 7 and qs' = "9.5"]
  by simp

section \<open>Review score\<close>

text \<open>
  Claim C10. An absent review count gets the volume modifier 1.0: the review score is
  then the score of any review count in \<open>[10, 100)\<close>, whatever the rating and the
  sentiment, and the low-volume modifier 0.90 is not applied.
\<close>

theorem absent_review_count:
  "volume_modifier None = 1.0 \<and>
   (10 \<le> c \<and> c < 100 \<longrightarrow>
      calculate_review_score rt None sent = calculate_review_score rt (Some c) sent)"
  by (simp add: calculate_review_score_def volume_modifier_def)

theorem absent_review_count_witness:
  "calculate_review_score (Some 4.5) None None = calculate_review_score (Some 4.5) (Some 42) None"
  using absent_review_count [of 42 "Some 4.5" None] by simp






section \<open>Best products\<close>

lemma fold_best_split:
  fixes k :: "'a \<Rightarrow> real"
  assumes "\<forall>y\<in>set pre. k y < k x" "\<forall>y\<in>set mid. k y \<le> k x"
  shows "\<exists>pre' post'. pre @ x # mid @ ys
            = pre' @ fold (\<lambda>y best. if k best < k y then y else best) ys x # post'
          \<and> (\<forall>y\<in>set pre'. k y < k (fold (\<lambda>y best. if k best < k y then y else best) ys x))
          \<and> (\<forall>y\<in>set post'. k y \<le> k (fold (\<lambda>y best. if k best < k y then y else best) ys x))"
  using assms
proof (induction ys arbitrary: pre x mid)
  case Nil
  then show ?case by auto
next
  case (Cons y ys)
  show ?case
  proof (cases "k x < k y")
    case True
    have "\<forall>z\<in>set (pre @ x # mid). k z < k y"
    proof
      fix z assume "z \<in> set (pre @ x # mid)"
      then have "k z \<le> k x" using Cons.prems by (auto intro: less_imp_le)
      with True show "k z < k y" by simp
    qed
    from Cons.IH [OF this, of "[]"] True show ?thesis by simp
  next
    case False
    have "\<forall>z\<in>set (mid @ [y]). k z \<le> k x"
      using Cons.prems False by auto
    from Cons.IH [OF Cons.prems(1) this] False show ?thesis by simp
  qed
qed

lemma py_max_key_first_max:
  fixes k :: "'a \<Rightarrow> real"
  assumes "xs \<noteq> []"
  shows "\<exists>b. py_max_key k xs = Some b \<and> b \<in> set xs \<and> is_first_max k xs b"
proof -
  obtain x ys where xs: "xs = x # ys" using assms by (cases xs) auto
  let ?b = "fold (\<lambda>y best. if k best < k y then y else best) ys x"
  from fold_best_split [of "[]" k x "[]" ys]
  obtain pre post where sp: "x # ys = pre @ ?b # post"
    and lt: "\<forall>y\<in>set pre. k y < k ?b" and le: "\<forall>y\<in>set post. k y \<le> k ?b"
    by auto
  have "length pre < length xs" using sp xs by simp
  moreover have "xs ! length pre = ?b" using sp xs by simp
  moreover have "\<forall>j<length pre. k (xs ! j) < k ?b"
    using sp xs lt by (simp add: nth_append)
  moreover have "\<forall>j<length xs. k (xs ! j) \<le> k ?b"
  proof (intro allI impI)
    fix j assume "j < length xs"
    then have "xs ! j \<in> set xs" by simp
    then have "xs ! j \<in> set pre \<union> {?b} \<union> set post" using sp xs by auto
    then show "k (xs ! j) \<le> k ?b" using lt le by fastforce
  qed
  ultimately have "is_first_max k xs ?b" unfolding is_first_max_def by blast
  moreover have "?b \<in> set xs" using sp xs by auto
  ultimately show ?thesis using xs by simp
qed

text \<open>
  Claim C6. On the empty list \<open>get_best_products\<close> returns \<open>None\<close> for \<open>best_value\<close>,
  \<open>best_price\<close> and \<open>best_quality\<close>. On a non-empty list each of the three is an element
  of the list with the greatest value score, price score and quality score
  respectively, and among the elements with that greatest score the first in input
  order.
\<close>

theorem best_products:
  "get_best_products [] = \<lparr>best_value = None, best_price = None, best_quality = None\<rparr> \<and>
   (products \<noteq> [] \<longrightarrow>
      (\<exists>bv bp bq.
         get_best_products products = \<lparr>best_value = Some bv, best_price = Some bp, best_quality = Some bq\<rparr>
       \<and> bv \<in> set products \<and> is_first_max value_score products bv
       \<and> bp \<in> set products \<and> is_first_max price_score products bp
       \<and> bq \<in> set products \<and> is_first_max quality_score products bq))"
proof (intro conjI impI)
  show "get_best_products [] = \<lparr>best_value = None, best_price = None, best_quality = None\<rparr>"
    by (simp add: get_best_products_def)
next
  assume ne: "products \<noteq> []"
  from py_max_key_first_max [OF ne, of value_score] obtain bv where
    "py_max_key value_score products = Some bv" "bv \<in> set products" "is_first_max value_score products bv"
    by blast
  moreover from py_max_key_first_max [OF ne, of price_score] obtain bp where
    "py_max_key price_score products = Some bp" "bp \<in> set products" "is_first_max price_score products bp"
    by blast
  moreover from py_max_key_first_max [OF ne, of quality_score] obtain bq where
    "py_max_key quality_score products = Some bq" "bq \<in> set products" "is_first_max quality_score products bq"
    by blast
  ultimately show "\<exists>bv bp bq.
         get_best_products products = \<lparr>best_value = Some bv, best_price = Some bp, best_quality = Some bq\<rparr>
       \<and> bv \<in> set products \<and> is_first_max value_score products bv
       \<and> bp \<in> set products \<and> is_first_max price_score products bp
       \<and> bq \<in> set products \<and> is_first_max quality_score products bq"
    using ne by (simp add: get_best_products_def)
qed

section \<open>Scoring a frame\<close>









lemma length_score_products: "length (score_products ps rm sm qm) = length ps"
  by (cases ps) (simp_all add: score_products_def sort_desc_def Let_def)






theorem best_products_witness:
  "\<exists>bv bp bq.
     get_best_products (score_products example_products Map.empty Map.empty None)
       = \<lparr>best_value = Some bv, best_price = Some bp, best_quality = Some bq\<rparr>
     \<and> bv \<in> set (score_products example_products Map.empty Map.empty None)
     \<and> is_first_max value_score (score_products example_products Map.empty Map.empty None) bv
     \<and> bp \<in> set (score_products example_products Map.empty Map.empty None)
     \<and> is_first_max price_score (score_products example_products Map.empty Map.empty None) bp
     \<and> bq \<in> set (score_products example_products Map.empty Map.empty None)
     \<and> is_first_max quality_score (score_products example_products Map.empty Map.empty None) bq"
proof -
  have "length (score_products example_products Map.empty Map.empty None) = 2"
    by (simp add: length_score_products example_products_def)
  then have "score_products example_products Map.empty Map.empty None \<noteq> []"
    by auto
  then show ?thesis
    using best_products [of "score_products example_products Map.empty Map.empty None"]
    by simp
qed

section \<open>Price normalizer: what cleaning and parsing keep\<close>

lemma digit_value_ascii:
  assumes "c < 1632"
  shows "digit_value c = (if 48 \<le> c \<and> c \<le> 57 then Some (c - 48) else None)"
  using assms by (simp add: digit_value_def nd_zeros_def)

lemma is_digit_ascii: "c < 1632 \<Longrightarrow> is_digit c \<longleftrightarrow> 48 \<le> c \<and> c \<le> 57"
  by (simp add: is_digit_def digit_value_ascii)

lemma set_rstrip: "set (rstrip s) \<subseteq> set s"
  using set_dropWhileD [of _ is_space "rev s"] by (auto simp: rstrip_def)

lemma set_strip: "set (strip s) \<subseteq> set s"
  using set_rstrip [of "dropWhile is_space s"] set_dropWhileD [of _ is_space s]
  by (auto simp: strip_def)

lemma set_sub_leading: "set (sub_leading s) \<subseteq> set s"
proof (cases "find (\<lambda>w. ci_prefix w s) leading_words")
  case None
  then show ?thesis by (simp add: sub_leading_def)
next
  case (Some w)
  have "set (dropWhile is_space (drop (length w) s)) \<subseteq> set (drop (length w) s)"
    by (auto dest: set_dropWhileD)
  also have "\<dots> \<subseteq> set s" by (rule set_drop_subset)
  finally show ?thesis using Some by (simp add: sub_leading_def)
qed

lemma set_rstrip_take: "set (rstrip (take n s)) \<subseteq> set s"
  using set_rstrip [of "take n s"] set_take_subset [of n s] by blast

lemma set_sub_trailing: "set (sub_trailing s) \<subseteq> set s"
proof (cases "find (\<lambda>w. ci_suffix w s) trailing_words")
  case (Some w)
  then show ?thesis using set_rstrip_take [of "length s - length w" s]
    by (simp add: sub_trailing_def)
next
  case None
  show ?thesis
  proof (cases "s \<noteq> [] \<and> last s = 10")
    case False
    with None show ?thesis by (auto simp: sub_trailing_def)
  next
    case True
    then have nl: "10 \<in> set s" using last_in_set [of s] by auto
    show ?thesis
    proof (cases "find (\<lambda>w. ci_suffix w (butlast s)) trailing_words")
      case None
      with \<open>find (\<lambda>w. ci_suffix w s) trailing_words = None\<close> True show ?thesis
        by (simp add: sub_trailing_def)
    next
      case (Some w)
      with \<open>find (\<lambda>w. ci_suffix w s) trailing_words = None\<close> True nl show ?thesis
        using set_rstrip_take [of "length s - 1 - length w" s]
        by (simp add: sub_trailing_def)
    qed
  qed
qed

lemma set_py_join: "set (py_join ws) \<subseteq> (\<Union>w\<in>set ws. set w) \<union> {32}"
  by (induction ws rule: py_join.induct) auto

lemma set_py_split: "(\<Union>w\<in>set (py_split s). set w) \<subseteq> set s"
proof (induction s rule: py_split.induct)
  case 1
  then show ?case by simp
next
  case (2 c cs)
  show ?case
  proof (cases "is_space c")
    case True
    with 2 show ?thesis by auto
  next
    case False
    have "set (takeWhile (\<lambda>d. \<not> is_space d) cs) \<subseteq> set cs"
      by (auto dest: set_takeWhileD)
    moreover have "set (dropWhile (\<lambda>d. \<not> is_space d) cs) \<subseteq> set cs"
      by (auto dest: set_dropWhileD)
    ultimately show ?thesis using 2 False by auto
  qed
qed

lemma set_clean_price_string: "set (clean_price_string s) \<subseteq> set s \<union> {32}"
proof (cases "s = []")
  case True
  then show ?thesis by (simp add: clean_price_string_def)
next
  case False
  let ?t = "sub_trailing (sub_leading (strip s))"
  have "set ?t \<subseteq> set s"
    using set_sub_trailing [of "sub_leading (strip s)"] set_sub_leading [of "strip s"] set_strip [of s]
    by blast
  moreover have "set (py_join (py_split ?t)) \<subseteq> set ?t \<union> {32}"
    using set_py_join [of "py_split ?t"] set_py_split [of ?t] by blast
  ultimately show ?thesis using False by (auto simp: clean_price_string_def Let_def)
qed

lemma set_py_remove: "set (py_remove old s) \<subseteq> set s"
proof (induction old s rule: py_remove.induct)
  case (1 old)
  then show ?case by simp
next
  case (2 old c cs)
  have "set (drop (length old) (c # cs)) \<subseteq> set (c # cs)" by (rule set_drop_subset)
  with 2 show ?case by (auto simp del: drop_Suc_Cons)
qed

lemma set_detect_currency: "set (snd (detect_currency s)) \<subseteq> set s \<union> {32}"
proof -
  let ?c = "clean_price_string s"
  have a: "set (strip (py_remove sym ?c)) \<subseteq> set ?c" for sym
    using set_strip [of "py_remove sym ?c"] set_py_remove [of sym ?c] by blast
  have b: "set (strip (drop n ?c)) \<subseteq> set ?c" for n
    using set_strip [of "drop n ?c"] set_drop_subset [of n ?c] by blast
  have "set (snd (detect_currency s)) \<subseteq> set ?c"
    using a b by (auto simp: detect_currency_def Let_def split: option.splits prod.splits)
  then show ?thesis using set_clean_price_string [of s] by blast
qed

lemma py_float_no_digit:
  assumes "\<forall>c\<in>set s. \<not> is_digit c"
  shows "py_float s = None"
proof (cases s)
  case Nil
  then show ?thesis by (simp add: py_float_def)
next
  case (Cons c fp)
  with assms have c: "\<not> is_digit c" and fp: "\<forall>d\<in>set fp. \<not> is_digit d" by auto
  show ?thesis
  proof (cases fp)
    case Nil
    with Cons c show ?thesis by (simp add: py_float_def)
  next
    case (Cons d ds)
    with fp have "\<not> list_all is_digit fp" by simp
    with \<open>s = c # fp\<close> c show ?thesis by (simp add: py_float_def)
  qed
qed

lemma not_digit_sep: "\<not> is_digit 46" "\<not> is_digit 32"
  by (simp_all add: is_digit_ascii)

lemma set_decimal_form: "set (decimal_form s) \<subseteq> set s \<union> {46}"
  by (auto simp: decimal_form_def Let_def)

lemma parse_numeric_value_no_digit:
  assumes "\<forall>c\<in>set s. \<not> is_digit c"
  shows "parse_numeric_value s = None"
proof -
  let ?k = "filter (\<lambda>c. is_digit c \<or> c = 46 \<or> c = 44 \<or> c = 45) s"
  let ?d = "dropWhile (\<lambda>c. c = 45) ?k"
  have "set ?d \<subseteq> set ?k" using set_dropWhileD [of _ "\<lambda>c. c = 45" ?k] by blast
  then have "set (decimal_form ?d) \<subseteq> set s \<union> {46}"
    using set_decimal_form [of ?d] by auto
  then have "\<forall>c\<in>set (decimal_form ?d). \<not> is_digit c"
    using assms not_digit_sep by auto
  then have "py_float (decimal_form ?d) = None" by (rule py_float_no_digit)
  then show ?thesis by (simp add: parse_numeric_value_def Let_def)
qed

text \<open>
  Claim C8. A price text without any digit character (a character that \<^verbatim>\<open>\d\<close>
  matches), the empty text and words such as \<open>Free\<close> among them, is normalised to an
  absent amount: the first component of \<open>normalize_price\<close> is \<open>None\<close>, for every target
  currency.
\<close>

theorem no_digits_absent:
  assumes "\<forall>c\<in>set price_str. \<not> is_digit c"
  shows "fst (normalize_price price_str target_currency) = None"
proof (cases "price_str = []")
  case True
  then show ?thesis by (simp add: normalize_price_def)
next
  case False
  obtain code cleaned where dc: "detect_currency price_str = (code, cleaned)"
    by (cases "detect_currency price_str")
  have "set cleaned \<subseteq> set price_str \<union> {32}"
    using set_detect_currency [of price_str] dc by simp
  then have "\<forall>c\<in>set cleaned. \<not> is_digit c"
    using assms not_digit_sep by auto
  then have "parse_numeric_value cleaned = None"
    by (rule parse_numeric_value_no_digit)
  then show ?thesis using False dc by (simp add: normalize_price_def)
qed

lemma free_no_digit: "\<forall>c\<in>set (S ''Free''). \<not> is_digit c"
  by (simp add: S_def is_digit_ascii)

theorem no_digits_absent_witness:
  "fst (normalize_price (S ''Free'') (S ''USD'')) = None \<and>
   fst (normalize_price [] (S ''USD'')) = None"
  using no_digits_absent [OF free_no_digit, of "S ''USD''"] no_digits_absent [of "[]" "S ''USD''"]
  by simp

section \<open>Price normalizer: examples\<close>

lemmas clean_eval = S_def is_space_def ci_char_def lower_ascii_def ci_suffix_def rstrip_def strip_def
  leading_words_def trailing_words_def sub_leading_def sub_trailing_def clean_price_string_def
  Let_def

lemmas parse_eval = S_def parse_numeric_value_def decimal_form_def rfind_def is_digit_ascii
  digit_value_ascii py_float_def digits_value_def Let_def

lemma detect_usd_1299: "detect_currency (S ''$1,299.99'') = (S ''USD'', S ''1,299.99'')"
  by (simp add: clean_eval detect_currency_def CURRENCY_SYMBOLS_def)

lemma parse_1299: "parse_numeric_value (S ''1,299.99'') = Some 1299.99"
  by (simp add: parse_eval)

lemma normalize_usd_1299:
  "normalize_price (S ''$1,299.99'') (S ''USD'') = (Some 1299.99, S ''USD'')"
  by (simp add: normalize_price_def detect_usd_1299 parse_1299 py_round_def round_half_even_def)
     (simp add: S_def)?

lemma detect_eur_9950: "detect_currency (8364 # S ''99,50'') = (S ''EUR'', S ''99,50'')"
  by (simp add: clean_eval detect_currency_def CURRENCY_SYMBOLS_def)

lemma parse_9950: "parse_numeric_value (S ''99,50'') = Some 99.50"
  by (simp add: parse_eval)

lemma rates: "rate_to_usd (S ''EUR'') = 1.08" "rate_to_usd (S ''USD'') = 1.0"
  by (simp_all add: rate_to_usd_def EXCHANGE_RATES_TO_USD_def S_def)

lemma normalize_eur_usd:
  "normalize_price (8364 # S ''99,50'') (S ''USD'') = (Some 107.46, S ''EUR'')"
  by (simp add: normalize_price_def detect_eur_9950 parse_9950 rates py_round_def round_half_even_def)
     (simp add: S_def)?

lemma normalize_eur_eur:
  "normalize_price (8364 # S ''99,50'') (S ''EUR'') = (Some 99.50, S ''EUR'')"
  by (simp add: normalize_price_def detect_eur_9950 parse_9950 py_round_def round_half_even_def)
     (simp add: S_def)?

lemma detect_cad: "detect_currency (S ''C$12.50'') = (S ''USD'', S ''C12.50'')"
  by (simp add: clean_eval detect_currency_def CURRENCY_SYMBOLS_def)

lemma parse_c1250: "parse_numeric_value (S ''C12.50'') = Some 12.5"
  by (simp add: parse_eval)

lemma normalize_cad: "normalize_price (S ''C$12.50'') (S ''USD'') = (Some 12.5, S ''USD'')"
  by (simp add: normalize_price_def detect_cad parse_c1250 py_round_def round_half_even_def)
     (simp add: S_def)?

text \<open>
  Claim C1, as stated, fails in its second half: with the default target currency USD
  the amount returned for the euro text \<open>99,50\<close> is not 99.50.
\<close>

theorem normalize_price_eur_not_9950:
  "normalize_price (8364 # S ''99,50'') (S ''USD'') \<noteq> (Some 99.50, S ''EUR'')"
  by (simp add: normalize_eur_usd)

text \<open>
  Claim C1, amended. \<open>normalize_price\<close> with the default target currency USD returns
  \<open>(1299.99, USD)\<close> for \<open>$1,299.99\<close>. For the euro sign followed by \<open>99,50\<close> the text is
  parsed as 99.50 and the detected currency is EUR; the amount returned is that
  value converted to the target currency, 107.46 for USD (rate 1.08) and 99.50 for
  the target currency EUR.
\<close>

theorem normalize_price_examples:
  "normalize_price (S ''$1,299.99'') (S ''USD'') = (Some 1299.99, S ''USD'') \<and>
   parse_numeric_value (S ''99,50'') = Some 99.50 \<and>
   normalize_price (8364 # S ''99,50'') (S ''USD'') = (Some 107.46, S ''EUR'') \<and>
   normalize_price (8364 # S ''99,50'') (S ''EUR'') = (Some 99.50, S ''EUR'')"
  using normalize_usd_1299 parse_9950 normalize_eur_usd normalize_eur_eur by blast

lemma amount_not_space: "amount_char c \<Longrightarrow> \<not> is_space c"
  by (auto simp: amount_char_def is_space_def)

lemma strip_no_space:
  assumes "\<forall>c\<in>set s. \<not> is_space c"
  shows "strip s = s"
proof -
  have "dropWhile is_space s = s" using assms by (cases s) auto
  moreover have "dropWhile is_space (rev s) = rev s" using assms by (cases "rev s") auto
  ultimately show ?thesis by (simp add: strip_def rstrip_def)
qed

lemma py_split_no_space:
  assumes "s \<noteq> []" "\<forall>c\<in>set s. \<not> is_space c"
  shows "py_split s = [s]"
proof -
  obtain c cs where s: "s = c # cs" using assms(1) by (cases s) auto
  have tw: "takeWhile (\<lambda>d. \<not> is_space d) cs = cs"
    and dw: "dropWhile (\<lambda>d. \<not> is_space d) cs = []"
    using assms(2) s by auto
  have "py_split (c # cs)
      = (c # takeWhile (\<lambda>d. \<not> is_space d) cs) # py_split (dropWhile (\<lambda>d. \<not> is_space d) cs)"
    using assms(2) s by simp
  also have "\<dots> = [c # cs]" by (simp only: tw dw py_split.simps(1))
  finally show ?thesis by (simp only: s)
qed

lemma py_remove_dollar:
  assumes "36 \<notin> set s"
  shows "py_remove [36] s = s"
  using assms by (induction s) auto

lemma sub_leading_C: "sub_leading (67 # s) = 67 # s"
  by (simp add: sub_leading_def leading_words_def S_def ci_char_def lower_ascii_def)

lemma ci_suffix_last:
  assumes "ci_suffix (w @ [p]) s"
  shows "s \<noteq> [] \<and> ci_char p (last s)"
proof (cases "rev s")
  case Nil
  with assms show ?thesis by (simp add: ci_suffix_def)
next
  case (Cons c cs)
  then have "s = rev cs @ [c]" by (metis rev.simps(2) rev_rev_ident)
  with assms Cons show ?thesis by (simp add: ci_suffix_def)
qed

lemma sub_trailing_amount:
  assumes "s \<noteq> []" "amount_char (last s) \<or> last s = 36"
  shows "sub_trailing s = s"
proof -
  have no: "\<not> ci_suffix w s" if "w \<in> set trailing_words" for w
  proof
    assume "ci_suffix w s"
    moreover from that obtain v p where "w = v @ [p]" "p = 116 \<or> p = 104 \<or> p = 97"
      by (auto simp: trailing_words_def S_def)
    ultimately have "ci_char 116 (last s) \<or> ci_char 104 (last s) \<or> ci_char 97 (last s)"
      using ci_suffix_last by blast
    with assms(2) show False
      by (auto simp: ci_char_def lower_ascii_def amount_char_def)
  qed
  then have "find (\<lambda>w. ci_suffix w s) trailing_words = None"
    by (simp add: find_None_iff)
  moreover have "last s \<noteq> 10" using assms(2) by (auto simp: amount_char_def)
  ultimately show ?thesis by (simp add: sub_trailing_def)
qed

text \<open>
  Claim C7 does not hold of the code. \<open>detect_currency\<close> tries the symbols in the order
  of \<open>CURRENCY_SYMBOLS\<close>, where \<open>$\<close> stands before \<open>C$\<close>. A text of \<open>C$\<close> and a numeric
  amount (digits, dots and commas) contains \<open>$\<close>, so it is detected as USD, only the
  \<open>$\<close> is removed, and the \<open>C\<close> stays in the remaining text; \<open>normalize_price\<close> reports
  the source currency USD. The claim asks for CAD and for the amount alone.
\<close>

theorem cad_symbol_detected_as_usd:
  assumes "\<forall>c\<in>set amount. amount_char c"
  shows "detect_currency (S ''C$'' @ amount) = (S ''USD'', S ''C'' @ amount)
       \<and> snd (normalize_price (S ''C$'' @ amount) target_currency) = S ''USD''"
proof -
  let ?s = "67 # 36 # amount"
  have S: "S ''C$'' @ amount = ?s" "S ''C'' @ amount = 67 # amount" by (simp_all add: S_def)
  have ns: "\<forall>c\<in>set ?s. \<not> is_space c"
    using assms amount_not_space by (auto simp: is_space_def)
  have "amount_char (last ?s) \<or> last ?s = 36"
    using assms by (cases amount rule: rev_cases) auto
  then have "sub_trailing ?s = ?s" by (intro sub_trailing_amount) simp_all
  then have clean: "clean_price_string ?s = ?s"
    using ns by (simp add: clean_price_string_def strip_no_space sub_leading_C
        py_split_no_space Let_def del: py_split.simps)
  have "36 \<notin> set amount" using assms by (auto simp: amount_char_def)
  then have rem: "py_remove [36] ?s = 67 # amount"
    using py_remove_dollar [of amount] by simp
  have "\<forall>c\<in>set (67 # amount). \<not> is_space c" using ns by simp
  then have "strip (67 # amount) = 67 # amount" by (rule strip_no_space)
  with clean rem have dc: "detect_currency ?s = (S ''USD'', 67 # amount)"
    by (simp add: detect_currency_def CURRENCY_SYMBOLS_def S_def)
  then have "snd (normalize_price ?s target_currency) = S ''USD''"
    by (simp add: normalize_price_def split: option.splits)
  with dc show ?thesis unfolding S by simp
qed

theorem cad_symbol_detected_as_usd_witness:
  "detect_currency (S ''C$12.50'') = (S ''USD'', S ''C12.50'') \<and>
   normalize_price (S ''C$12.50'') (S ''USD'') = (Some 12.5, S ''USD'')"
proof -
  have "\<forall>c\<in>set (S ''12.50''). amount_char c" by (simp add: S_def amount_char_def)
  from cad_symbol_detected_as_usd [OF this, of "S ''USD''"]
  have "detect_currency (S ''C$12.50'') = (S ''USD'', S ''C12.50'')" by (simp add: S_def)
  with normalize_cad show ?thesis by blast
qed



section \<open>Mock products\<close>

lemma mock_product_price_reset:
  "(mock_product env query i item v)\<lparr>price := 0\<rparr> = (mock_product env query i item w)\<lparr>price := 0\<rparr>"
  by (simp add: mock_product_def Let_def)

lemma mock_loop_skip:
  assumes "\<not> (item_source item \<in> set sources \<and> int (length ps) < limit)"
  shows "mock_loop env query sources limit ((i, item) # rest) ps g
       = mock_loop env query sources limit rest ps g"
  using assms by auto

lemma mock_loop_take:
  assumes "item_source item \<in> set sources \<and> int (length ps) < limit"
  shows "mock_loop env query sources limit ((i, item) # rest) ps g
       = mock_loop env query sources limit rest
           (ps @ [mock_product env query i item (fst (random_uniform (- 5) 5 g))])
           (snd (random_uniform (- 5) 5 g))"
  using assms by (simp add: case_prod_beta Let_def)

lemma mock_loop_up_to_price:
  assumes "map (\<lambda>p. p\<lparr>price := 0\<rparr>) ps = map (\<lambda>p. p\<lparr>price := 0\<rparr>) ps'"
  shows "map (\<lambda>p. p\<lparr>price := 0\<rparr>) (fst (mock_loop env query sources limit items ps g))
       = map (\<lambda>p. p\<lparr>price := 0\<rparr>) (fst (mock_loop env query sources limit items ps' g'))"
  using assms
proof (induction items arbitrary: ps ps' g g')
  case Nil
  then show ?case by simp
next
  case (Cons a items)
  obtain i item where a: "a = (i, item)" by (cases a)
  have len: "length ps = length ps'"
    using Cons.prems map_eq_imp_length_eq by blast
  show ?case
  proof (cases "item_source item \<in> set sources \<and> int (length ps) < limit")
    case False
    then have "\<not> (item_source item \<in> set sources \<and> int (length ps') < limit)"
      using len by simp
    from mock_loop_skip [OF False] mock_loop_skip [OF this] a Cons.IH [OF Cons.prems]
    show ?thesis by metis
  next
    case True
    let ?p = "mock_product env query i item (fst (random_uniform (- 5) 5 g))"
    let ?p' = "mock_product env query i item (fst (random_uniform (- 5) 5 g'))"
    have "map (\<lambda>p. p\<lparr>price := 0\<rparr>) (ps @ [?p]) = map (\<lambda>p. p\<lparr>price := 0\<rparr>) (ps' @ [?p'])"
      using Cons.prems mock_product_price_reset [of env query i item] by simp
    moreover have "item_source item \<in> set sources \<and> int (length ps') < limit"
      using True len by simp
    ultimately show ?thesis
      using Cons.IH mock_loop_take [OF True] a by (metis mock_loop_take)
  qed
qed

lemma random_uniform_range:
  assumes "0 \<le> g 0" "g 0 < 1"
  shows "\<bar>fst (random_uniform (- 5) 5 g)\<bar> \<le> 5"
  using assms by (simp add: random_uniform_def abs_le_iff)

lemma mock_loop_price_near:
  assumes "\<forall>n. 0 \<le> g n \<and> g n < 1"
    and "\<forall>p\<in>set ps. \<exists>item\<in>D. \<bar>price p - item_price item\<bar> \<le> 5"
    and "snd ` set items \<subseteq> D"
  shows "\<forall>p\<in>set (fst (mock_loop env query sources limit items ps g)).
           \<exists>item\<in>D. \<bar>price p - item_price item\<bar> \<le> 5"
  using assms
proof (induction items arbitrary: ps g)
  case Nil
  then show ?case by simp
next
  case (Cons a items)
  obtain i item where a: "a = (i, item)" by (cases a)
  have items: "snd ` set items \<subseteq> D" and item: "item \<in> D" using Cons.prems(3) a by auto
  show ?case
  proof (cases "item_source item \<in> set sources \<and> int (length ps) < limit")
    case False
    from mock_loop_skip [OF False] a Cons.IH [OF Cons.prems(1,2) items] show ?thesis
      by metis
  next
    case True
    let ?v = "fst (random_uniform (- 5) 5 g)"
    let ?g = "snd (random_uniform (- 5) 5 g)"
    have g': "\<forall>n. 0 \<le> ?g n \<and> ?g n < 1"
      using Cons.prems(1) by (simp add: random_uniform_def)
    have "\<bar>?v\<bar> \<le> 5" using Cons.prems(1) random_uniform_range [of g] by simp
    then have "\<bar>price (mock_product env query i item ?v) - item_price item\<bar> \<le> 5"
      by (simp add: mock_product_def Let_def)
    with item Cons.prems(2)
    have "\<forall>p\<in>set (ps @ [mock_product env query i item ?v]).
            \<exists>item\<in>D. \<bar>price p - item_price item\<bar> \<le> 5"
      by auto
    from Cons.IH [OF g' this items] mock_loop_take [OF True] a show ?thesis
      by metis
  qed
qed

lemma str_nat_ex: "str_nat 3 = S ''3''" "str_nat 4242 = S ''4242''"
  by (simp_all add: S_def)

lemma select_laptop: "select_mock_data (ascii_lower (S ''laptop stand'')) = MOCK_laptop_stand"
  by (simp add: select_mock_data_def MOCK_PRODUCTS_def ascii_lower_def lower_ascii_def S_def)

lemma title_laptop:
  "py_contains (ascii_lower (S ''laptop stand''))
     (ascii_lower (S ''Amazon Basics Laptop Stand - Black''))"
  by (simp add: ascii_lower_def lower_ascii_def S_def)

lemma mock_laptop_walmart:
  "get_mock_products example_builtins (S ''laptop stand'') [WALMART] 1 g =
     ([\<lparr>product_id = S ''mock_walmart_3_4242'',
        title = S ''Amazon Basics Laptop Stand - Black'',
        price = 19.99 + (- 5 + (5 - (- 5)) * g 0),
        original_price = Some 24.99,
        currency = S ''USD'',
        image_url = Some (S ''https://m.media-amazon.com/images/I/71-oNMl84VL._AC_SL1500_.jpg''),
        product_url = S ''https://example.com/product/3'',
        source = WALMART,
        rating = Some 4.3,
        review_count = Some 23456,
        availability = S ''in_stock''\<rparr>],
      \<lambda>n. g (Suc n))"
  by (simp add: get_mock_products_def example_builtins_def select_laptop MOCK_laptop_stand_def
      enumerate_eq_zip upt_rec random_uniform_def mock_product_def title_laptop source_value_def
      str_nat_ex Let_def)
     (simp add: S_def)

lemma example_rng_range: "\<forall>n. 0 \<le> example_rng n \<and> example_rng n < 1"
  by (simp add: example_rng_def)

text \<open>
  Claim C9, as stated, fails: \<open>get_mock_products\<close> adds \<^verbatim>\<open>random.uniform(-5, 5)\<close> to
  every price, so a second call, which starts from the generator state that the
  first call left, returns another list. For the query \<open>laptop stand\<close>, the source
  list \<open>[WALMART]\<close> and the limit 1, with the draws 1/2 and 1/3, the prices are 19.99
  and about 18.32.
\<close>

theorem mock_products_differ:
  "fst (get_mock_products example_builtins (S ''laptop stand'') [WALMART] 1 example_rng)
   \<noteq> fst (get_mock_products example_builtins (S ''laptop stand'') [WALMART] 1
           (snd (get_mock_products example_builtins (S ''laptop stand'') [WALMART] 1 example_rng)))"
  by (simp add: mock_laptop_walmart example_rng_def)

text \<open>
  Claim C9, amended. For every fixed query, source list and limit, two calls of
  \<open>get_mock_products\<close>, whatever the states of the random generator, return lists of
  the same length whose products agree in every field but the price: ids, titles,
  original prices, sources, ratings and the rest. Each price lies within 5 of the
  price of a template of the selected template list.
\<close>

theorem mock_products_up_to_price:
  "map (\<lambda>p. p\<lparr>price := 0\<rparr>) (fst (get_mock_products env query sources limit g))
     = map (\<lambda>p. p\<lparr>price := 0\<rparr>) (fst (get_mock_products env query sources limit g'))
   \<and> ((\<forall>n. 0 \<le> g n \<and> g n < 1) \<longrightarrow>
        (\<forall>p\<in>set (fst (get_mock_products env query sources limit g)).
           \<exists>item\<in>set (select_mock_data (str_lower env query)).
             \<bar>price p - item_price item\<bar> \<le> 5))"
proof (intro conjI impI)
  show "map (\<lambda>p. p\<lparr>price := 0\<rparr>) (fst (get_mock_products env query sources limit g))
     = map (\<lambda>p. p\<lparr>price := 0\<rparr>) (fst (get_mock_products env query sources limit g'))"
    unfolding get_mock_products_def Let_def
    by (rule mock_loop_up_to_price) simp
next
  assume g: "\<forall>n. 0 \<le> g n \<and> g n < 1"
  let ?D = "select_mock_data (str_lower env query)"
  have "snd ` set (enumerate 0 ?D) \<subseteq> set ?D"
    by (metis map_snd_enumerate set_map subset_refl)
  from mock_loop_price_near [OF g _ this, of "[]" env query sources limit]
  show "\<forall>p\<in>set (fst (get_mock_products env query sources limit g)).
           \<exists>item\<in>set ?D. \<bar>price p - item_price item\<bar> \<le> 5"
    by (simp add: get_mock_products_def Let_def)
qed

theorem mock_products_up_to_price_witness:
  "fst (get_mock_products example_builtins (S ''laptop stand'') [WALMART] 1 example_rng) \<noteq> []
   \<and> map (\<lambda>p. p\<lparr>price := 0\<rparr>)
         (fst (get_mock_products example_builtins (S ''laptop stand'') [WALMART] 1 example_rng))
     = map (\<lambda>p. p\<lparr>price := 0\<rparr>)
         (fst (get_mock_products example_builtins (S ''laptop stand'') [WALMART] 1
                (snd (get_mock_products example_builtins (S ''laptop stand'') [WALMART] 1
                        example_rng))))
   \<and> list_all (\<lambda>p. \<exists>item\<in>set (select_mock_data (str_lower example_builtins (S ''laptop stand''))).
                      \<bar>price p - item_price item\<bar> \<le> 5)
         (fst (get_mock_products example_builtins (S ''laptop stand'') [WALMART] 1 example_rng))"
proof -
  have "fst (get_mock_products example_builtins (S ''laptop stand'') [WALMART] 1 example_rng) \<noteq> []"
    by (simp add: mock_laptop_walmart)
  then show ?thesis
    unfolding list_all_iff
    using example_rng_range
      mock_products_up_to_price [of example_builtins "S ''laptop stand''" "[WALMART]" 1 example_rng
        "snd (get_mock_products example_builtins (S ''laptop stand'') [WALMART] 1 example_rng)"]
    by blast
qed

end
